theory Spec2Isabelle
  imports Complex_Main "HOL-Library.AList"
begin

section \<open>vite-plugin-compression: the compression pipeline of \<open>src/index.ts\<close>\<close>

text \<open>
  The development embeds the plugin factory, \<open>closeBundle\<close>, \<open>filterFiles\<close>,
  \<open>getCompressionOptions\<close>, \<open>getOutputFileName\<close> and the numeric part of
  \<open>handleOutputLogger\<close>. The collaborators the source calls but does not define
  (\<open>fs.stat\<close>, \<open>fs.readFile\<close>, \<open>fs.writeFile\<close>, \<open>fs.remove\<close>, \<open>zlib[algorithm]\<close>,
  \<open>Date.now\<close>, \<open>toFixed\<close>, \<open>normalizePath\<close>) are oracles of an environment record; every call
  the source issues to a collaborator is appended to a trace, so that what was read, removed,
  compressed, written and logged, and in which order, can be stated.
\<close>

subsection \<open>JavaScript values\<close>

text \<open>
  A JavaScript number is modelled by an exact rational; the rounding of doubles is not
  modelled. Division is the one operation of the source whose result may leave the finite
  numbers, so its result type has the three special values as well. How a number prints
  (\<open>toFixed(2)\<close>) is left to the environment.
\<close>

type_synonym number = rat

type_synonym buffer = "nat list"

datatype jsnum = Finite rat | NaN | Infinity | NegInfinity

definition js_div :: "number \<Rightarrow> number \<Rightarrow> jsnum" where
  "js_div a b =
     (if b \<noteq> 0 then Finite (a / b)
      else if a = 0 then NaN
      else if 0 < a then Infinity
      else NegInfinity)"

definition startsWith :: "string \<Rightarrow> string \<Rightarrow> bool" where
  "startsWith s pre = (take (length pre) s = pre)"

definition endsWith :: "string \<Rightarrow> string \<Rightarrow> bool" where
  "endsWith s suf = (length suf \<le> length s \<and> drop (length s - length suf) s = suf)"

definition toLowerCase :: "string \<Rightarrow> string" where
  "toLowerCase s =
     map (\<lambda>c. case map_of (zip ''ABCDEFGHIJKLMNOPQRSTUVWXYZ'' ''abcdefghijklmnopqrstuvwxyz'') c of
                 None \<Rightarrow> c | Some d \<Rightarrow> d) s"

text \<open>
  Property keys are names or integer indices (a computed key \<open>[zlib.constants.X]\<close> with a
  numeric constant is an integer index). An options object is a finite map from keys to
  values.
\<close>

datatype prop_key = Named string | Indexed nat

datatype jsval = JNum int | JStr string | JBool bool | JObj "(prop_key \<times> jsval) list"

type_synonym js_object = "prop_key \<rightharpoonup> jsval"

subsection \<open>Options and their defaults\<close>

text \<open>
  \<open>filter\<close> is a \<open>RegExp\<close> or a function of the path. \<open>filterFiles\<close> also handles a falsy
  value (no filtering) and a truthy value that is neither (every file kept).

  \<open>RegExp.prototype.test\<close> is a pure predicate only for an expression without the \<open>g\<close> and
  \<open>y\<close> flags: \<open>RegExp re\<close> is such an expression, given by the paths it matches. With one of
  these flags \<open>test\<close> searches from the expression's \<open>lastIndex\<close> and writes it: \<open>RegExpGY
  search i\<close> is such an expression with \<open>lastIndex = i\<close>, where \<open>search s j\<close> is the end of the
  match found in \<open>s\<close> from index \<open>j\<close> on, if there is one.
\<close>

datatype file_filter =
    RegExp "string \<Rightarrow> bool"
  | RegExpGY "string \<Rightarrow> nat \<Rightarrow> nat option" nat
  | Function "string \<Rightarrow> bool"
  | Falsy
  | OtherTruthy

text \<open>\<open>const extRE = /\.(js|mjs|json|css|html)$/i\<close>, as the set of paths it accepts.\<close>

definition extRE :: "string \<Rightarrow> bool" where
  "extRE file =
     list_ex (\<lambda>suf. endsWith (toLowerCase file) suf)
       [''.js'', ''.mjs'', ''.json'', ''.css'', ''.html'']"

text \<open>The interface \<open>VitePluginCompression\<close>: every field is optional.\<close>

record VitePluginCompression =
  opt_disable :: "bool option"
  opt_filter :: "file_filter option"
  opt_verbose :: "bool option"
  opt_threshold :: "number option"
  opt_compressionOptions :: "js_object option"
  opt_deleteOriginFile :: "bool option"
  opt_ext :: "string option"
  opt_algorithm :: "string option"

text \<open>The constants the factory destructures from the options, with their defaults.\<close>

record config =
  disable :: bool
  fileFilter :: file_filter
  verbose :: bool
  threshold :: number
  compressionOptions :: js_object
  deleteOriginFile :: bool
  ext :: string
  algorithm :: string

definition orDefault :: "'a option \<Rightarrow> 'a \<Rightarrow> 'a" where
  "orDefault v d = (case v of None \<Rightarrow> d | Some x \<Rightarrow> x)"

text \<open>
  \<open>let { ext = '' } = options\<close>, then \<open>'.gz'\<close> for gzip and \<open>'.br'\<close> for brotliCompress
  when \<open>!ext\<close> (the empty string is the falsy string).
\<close>

definition resolveExt :: "string \<Rightarrow> string option \<Rightarrow> string" where
  "resolveExt alg e =
     (let ext0 = orDefault e '''';
          ext1 = (if alg = ''gzip'' \<and> ext0 = '''' then ''.gz'' else ext0);
          ext2 = (if alg = ''brotliCompress'' \<and> ext1 = '''' then ''.br'' else ext1)
      in ext2)"

definition resolveOptions :: "VitePluginCompression \<Rightarrow> config" where
  "resolveOptions options =
     \<lparr> disable = orDefault (opt_disable options) False,
       fileFilter = orDefault (opt_filter options) (RegExp extRE),
       verbose = orDefault (opt_verbose options) True,
       threshold = orDefault (opt_threshold options) 1025,
       compressionOptions = orDefault (opt_compressionOptions options) Map.empty,
       deleteOriginFile = orDefault (opt_deleteOriginFile options) False,
       ext = resolveExt (orDefault (opt_algorithm options) ''gzip'') (opt_ext options),
       algorithm = orDefault (opt_algorithm options) ''gzip'' \<rparr>"

text \<open>
  The default export: the empty plugin (no \<open>closeBundle\<close> hook, here \<open>None\<close>) when
  \<open>disable\<close> is set, otherwise the plugin whose hooks close over the constants.
\<close>

definition viteCompression :: "VitePluginCompression \<Rightarrow> config option" where
  "viteCompression options =
     (let cfg = resolveOptions options in if disable cfg then None else Some cfg)"

subsection \<open>filterFiles, getCompressionOptions, getOutputFileName\<close>

text \<open>
  \<open>files.filter((file) => filter.test(file))\<close> for an expression with the \<open>g\<close> or \<open>y\<close> flag:
  the files kept, and \<open>lastIndex\<close> after the last test. A test fails at once when
  \<open>lastIndex\<close> lies beyond the end of the string; a failed test resets \<open>lastIndex\<close> to 0, a
  successful one sets it to the end of the match.
\<close>

fun testAll ::
  "(string \<Rightarrow> nat \<Rightarrow> nat option) \<Rightarrow> nat \<Rightarrow> string list \<Rightarrow> string list \<times> nat" where
  "testAll search i [] = ([], i)"
| "testAll search i (f # fs) =
     (case (if length f < i then None else search f i) of
        None \<Rightarrow> testAll search 0 fs
      | Some e \<Rightarrow> (let (kept, j) = testAll search e fs in (f # kept, j)))"

definition filterFiles :: "string list \<Rightarrow> file_filter \<Rightarrow> string list" where
  "filterFiles files flt =
     (case flt of
        Falsy \<Rightarrow> files
      | RegExp re \<Rightarrow> filter re files
      | RegExpGY search i \<Rightarrow> fst (testAll search i files)
      | Function f \<Rightarrow> filter f files
      | OtherTruthy \<Rightarrow> filter (\<lambda>file. True) files)"

text \<open>
  The filter object after \<open>filterFiles\<close>: the same object, with the \<open>lastIndex\<close> the tests
  left. The factory's \<open>filter\<close> constant refers to one object for all runs, so this is the
  filter of the next run.
\<close>

definition filterAfter :: "string list \<Rightarrow> file_filter \<Rightarrow> file_filter" where
  "filterAfter files flt =
     (case flt of
        RegExpGY search i \<Rightarrow> RegExpGY search (snd (testAll search i files))
      | Falsy \<Rightarrow> flt
      | RegExp re \<Rightarrow> flt
      | Function f \<Rightarrow> flt
      | OtherTruthy \<Rightarrow> flt)"

text \<open>
  The constants of Node's \<open>zlib.constants\<close> are not part of the repository; they are a
  parameter. \<open>node_zlib\<close> holds the values Node documents, for concrete evaluation.
\<close>

record zlib_constants =
  Z_BEST_COMPRESSION :: int
  BROTLI_PARAM_QUALITY :: nat
  BROTLI_MAX_QUALITY :: int
  BROTLI_PARAM_MODE :: nat
  BROTLI_MODE_TEXT :: int

definition node_zlib :: zlib_constants where
  "node_zlib =
     \<lparr> Z_BEST_COMPRESSION = 9, BROTLI_PARAM_QUALITY = 1, BROTLI_MAX_QUALITY = 11,
       BROTLI_PARAM_MODE = 0, BROTLI_MODE_TEXT = 1 \<rparr>"

definition defaultOptions :: "zlib_constants \<Rightarrow> string \<rightharpoonup> js_object" where
  "defaultOptions zc =
     [ ''gzip'' \<mapsto> [Named ''level'' \<mapsto> JNum (Z_BEST_COMPRESSION zc)],
       ''deflate'' \<mapsto> [Named ''level'' \<mapsto> JNum (Z_BEST_COMPRESSION zc)],
       ''deflateRaw'' \<mapsto> [Named ''level'' \<mapsto> JNum (Z_BEST_COMPRESSION zc)],
       ''brotliCompress'' \<mapsto>
          [Named ''params'' \<mapsto>
             JObj (AList.update (Indexed (BROTLI_PARAM_MODE zc)) (JNum (BROTLI_MODE_TEXT zc))
                    [(Indexed (BROTLI_PARAM_QUALITY zc), JNum (BROTLI_MAX_QUALITY zc))])] ]"

text \<open>
  \<open>{ ...defaultOptions[algorithm], ...compressionOptions }\<close>. Spreading \<open>undefined\<close>, or an
  inherited member of the object literal (a function of \<open>Object.prototype\<close>, which has no
  own enumerable property), contributes nothing.
\<close>

definition getCompressionOptions :: "zlib_constants \<Rightarrow> string \<Rightarrow> js_object \<Rightarrow> js_object" where
  "getCompressionOptions zc alg userOptions =
     (case defaultOptions zc alg of None \<Rightarrow> Map.empty | Some d \<Rightarrow> d) ++ userOptions"

definition compressExt :: "string \<Rightarrow> string" where
  "compressExt e = (if startsWith e ''.'' then e else ''.'' @ e)"

definition getOutputFileName :: "string \<Rightarrow> string \<Rightarrow> string" where
  "getOutputFileName filepath e = filepath @ compressExt e"

subsection \<open>The environment and the state\<close>

record stats =
  mtimeMs :: number
  fsize :: nat

text \<open>
  \<open>fs.remove\<close> is called without \<open>await\<close>, and the codec is invoked in the same synchronous
  step. The file therefore leaves the disk only while the handler waits for the codec,
  while it waits for the write, or after the handler has settled (if ever).
\<close>

datatype unlink_point = DuringCodec | DuringWrite | AfterHandler

text \<open>
  \<open>None\<close> is a rejected promise (\<open>stat\<close>, \<open>readFile\<close>), an error handed to the callback, an
  error thrown by the call or a missing \<open>zlib[algorithm]\<close> (\<open>zlib\<close>); \<open>writeFile\<close> says whether
  the write resolved; \<open>dateNow p\<close> is what \<open>Date.now()\<close> returns in the handler of path \<open>p\<close>;
  \<open>unlinkDone p\<close> is when the removal requested by the handler of \<open>p\<close> takes effect;
  \<open>toFixed x\<close> is \<open>x.toFixed(2)\<close>; \<open>displayName c\<close> is
  \<open>normalizePath(c).replace(outputDirRE, '')\<close>.
\<close>

record env =
  stat :: "string \<Rightarrow> stats option"
  readFile :: "string \<Rightarrow> buffer option"
  zlib :: "string \<Rightarrow> js_object \<Rightarrow> buffer \<Rightarrow> buffer option"
  writeFile :: "string \<Rightarrow> buffer \<Rightarrow> bool"
  dateNow :: "string \<Rightarrow> number"
  unlinkDone :: "string \<Rightarrow> unlink_point"
  toFixed :: "jsnum \<Rightarrow> string"
  displayName :: "string \<Rightarrow> string"

record entry =
  csize :: nat
  oldSize :: nat
  cname :: string

record report_row =
  row_filename :: string
  row_oldSize :: number
  row_newSize :: number
  row_percentage :: jsnum

datatype report_line =
    Blank
  | Header string
  | Row report_row
  | Total number number jsnum

text \<open>
  \<open>Remove p\<close> is the call \<open>fs.remove(p)\<close>; \<open>Unlinked p\<close> is the moment the file leaves the
  disk, when that happens before the handler settles. The other events are calls.
\<close>

datatype event =
    Stat string
  | ReadFile string
  | Remove string
  | Unlinked string
  | Compress string
  | WriteFile string buffer
  | LoggerError string
  | LoggerInfo report_line
  | Success

text \<open>
  \<open>mtimeCache\<close> is the module-level map; \<open>compressMap\<close> is the insertion-ordered map a
  \<open>closeBundle\<close> call creates; \<open>trace\<close> lists the calls issued to the collaborators, the
  logger and the \<open>success\<close> callback, and the removals that took effect, oldest first.
\<close>

record world =
  mtimeCache :: "string \<rightharpoonup> number"
  compressMap :: "(string \<times> entry) list"
  trace :: "event list"

datatype outcome = Fulfilled | Rejected

definition emit :: "event \<Rightarrow> world \<Rightarrow> world" where
  "emit e w = w\<lparr>trace := trace w @ [e]\<rparr>"

text \<open>\<open>mtimeCache.get(filePath) || 0\<close>\<close>

definition lastRecorded :: "(string \<rightharpoonup> number) \<Rightarrow> string \<Rightarrow> number" where
  "lastRecorded cache p = (case cache p of None \<Rightarrow> 0 | Some t \<Rightarrow> if t = 0 then 0 else t)"

text \<open>\<open>mtimeMs <= (mtimeCache.get(filePath) || 0) || oldSize < threshold\<close>\<close>

definition skipCondition :: "config \<Rightarrow> (string \<rightharpoonup> number) \<Rightarrow> string \<Rightarrow> stats \<Rightarrow> bool" where
  "skipCondition cfg cache p st =
     (mtimeMs st \<le> lastRecorded cache p \<or> of_nat (fsize st) < threshold cfg)"

subsection \<open>closeBundle\<close>

text \<open>
  The asynchronous function that \<open>closeBundle\<close> maps over the files. A rejected
  \<open>stat\<close>, \<open>readFile\<close> or \<open>writeFile\<close> rejects the handler where it stands.
  \<open>fs.remove\<close> is called without \<open>await\<close>: the trace records the call where it is issued
  and the removal where the environment lets it take effect; its result is never observed.
  A failing codec is caught: the error is logged and \<open>content\<close> keeps the bytes read. (A
  codec that fails within the call leaves no time for the removal before the \<open>catch\<close>; the
  model does not tell the two kinds of failure apart, which only adds behaviours.)
\<close>

definition handler :: "config \<Rightarrow> js_object \<Rightarrow> env \<Rightarrow> string \<Rightarrow> world \<Rightarrow> outcome \<times> world" where
  "handler cfg compressOptions ev filePath w =
     (let w1 = emit (Stat filePath) w in
      case stat ev filePath of
        None \<Rightarrow> (Rejected, w1)
      | Some st \<Rightarrow>
          if skipCondition cfg (mtimeCache w1) filePath st then (Fulfilled, w1)
          else
            (let w2 = emit (ReadFile filePath) w1 in
             case readFile ev filePath of
               None \<Rightarrow> (Rejected, w2)
             | Some content0 \<Rightarrow>
                 (let w3 = (if deleteOriginFile cfg then emit (Remove filePath) w2 else w2);
                      w4 = emit (Compress filePath) w3;
                      w4' = (if deleteOriginFile cfg \<and> unlinkDone ev filePath = DuringCodec
                             then emit (Unlinked filePath) w4 else w4);
                      (content, w5) =
                        (case zlib ev (algorithm cfg) compressOptions content0 of
                           Some result \<Rightarrow> (result, w4')
                         | None \<Rightarrow>
                             (content0, emit (LoggerError (''compress error:'' @ filePath)) w4'));
                      fname = getOutputFileName filePath (ext cfg);
                      w6 = w5\<lparr>compressMap :=
                              AList.update filePath
                                \<lparr> csize = length content, oldSize = fsize st, cname = fname \<rparr>
                                (compressMap w5)\<rparr>;
                      w7 = emit (WriteFile fname content) w6;
                      w8 = (if deleteOriginFile cfg \<and> unlinkDone ev filePath = DuringWrite
                            then emit (Unlinked filePath) w7 else w7)
                  in if writeFile ev fname content
                     then (Fulfilled,
                           w8\<lparr>mtimeCache := (mtimeCache w8)(filePath \<mapsto> dateNow ev filePath)\<rparr>)
                     else (Rejected, w8))))"



text \<open>
  \<open>handleOutputLogger\<close>. A report line is modelled by the numbers it shows: one row per entry
  of \<open>compressMap\<close> and the totals; \<open>reportLines\<close> is the report that is logged when nothing
  throws. Colours and the text of a line are not modelled, its widths are: each line pads its
  columns with \<open>' '.repeat(n)\<close>, which throws a \<open>RangeError\<close> for a negative \<open>n\<close>.
\<close>

definition bytesDivider :: number where
  "bytesDivider = 1000"

definition percentage :: "entry \<Rightarrow> jsnum" where
  "percentage e = js_div (100 * of_nat (csize e)) (of_nat (oldSize e))"

definition newItem :: "entry \<Rightarrow> report_row" where
  "newItem e =
     \<lparr> row_filename = cname e,
       row_oldSize = of_nat (oldSize e) / bytesDivider,
       row_newSize = of_nat (csize e) / bytesDivider,
       row_percentage = percentage e \<rparr>"

definition totalOldSize :: "(string \<times> entry) list \<Rightarrow> nat" where
  "totalOldSize cm = sum_list (map (\<lambda>(p, e). oldSize e) cm)"

definition totalNewSize :: "(string \<times> entry) list \<Rightarrow> nat" where
  "totalNewSize cm = sum_list (map (\<lambda>(p, e). csize e) cm)"


datatype completion = Normal | RangeError

text \<open>
  A row pads the old size, the new size and the percentage to the width of the totals:
  \<open>' '.repeat(totalOldSizeString.length - oldSize.length)\<close> and so on. (Its first padding,
  \<open>' '.repeat(2 + maxLengths.filename - filename.length)\<close>, is never negative.)
\<close>

definition rowFits :: "env \<Rightarrow> (string \<times> entry) list \<Rightarrow> entry \<Rightarrow> bool" where
  "rowFits ev cm e =
     (length (toFixed ev (Finite (row_oldSize (newItem e))))
        \<le> length (toFixed ev (Finite (of_nat (totalOldSize cm) / bytesDivider)))
      \<and> length (toFixed ev (Finite (row_newSize (newItem e))))
        \<le> length (toFixed ev (Finite (of_nat (totalNewSize cm) / bytesDivider)))
      \<and> length (toFixed ev (row_percentage (newItem e)))
        \<le> length (toFixed ev (js_div (100 * of_nat (totalNewSize cm))
                                  (of_nat (totalOldSize cm)))))"

text \<open>\<open>compressMapArray.forEach\<close>: the rows are logged in order until one throws.\<close>

fun logRows ::
  "env \<Rightarrow> (string \<times> entry) list \<Rightarrow> (string \<times> entry) list \<Rightarrow> world \<Rightarrow> completion \<times> world"
  where
  "logRows ev cm [] w = (Normal, w)"
| "logRows ev cm (pe # rest) w =
     (if rowFits ev cm (snd pe)
      then logRows ev cm rest (emit (LoggerInfo (Row (newItem (snd pe)))) w)
      else (RangeError, w))"

text \<open>\<open>maxLengths.filename\<close>, which starts at 0.\<close>

definition maxFilename :: "env \<Rightarrow> (string \<times> entry) list \<Rightarrow> nat" where
  "maxFilename ev cm = foldl (\<lambda>m pe. max m (length (displayName ev (cname (snd pe))))) 0 cm"

text \<open>
  The blank line and the header, the rows, then the totals line, which starts with
  \<open>'Total', ' '.repeat(2 + maxLengths.filename - 5)\<close>, and the closing blank line.
\<close>

definition handleOutputLogger :: "config \<Rightarrow> env \<Rightarrow> world \<Rightarrow> completion \<times> world" where
  "handleOutputLogger cfg ev w =
     (let cm = compressMap w;
          w1 = emit (LoggerInfo (Header (algorithm cfg))) (emit (LoggerInfo Blank) w);
          (c, w2) = logRows ev cm cm w1
      in if c = RangeError then (RangeError, w2)
         else if 2 + maxFilename ev cm < 5 then (RangeError, w2)
         else (Normal,
               emit (LoggerInfo Blank)
                 (emit (LoggerInfo
                          (Total (of_nat (totalOldSize cm) / bytesDivider)
                                 (of_nat (totalNewSize cm) / bytesDivider)
                                 (js_div (100 * of_nat (totalNewSize cm))
                                         (of_nat (totalOldSize cm)))))
                    w2)))"




text \<open>The events a step added to the trace.\<close>

definition newEvents :: "world \<Rightarrow> world \<Rightarrow> event list" where
  "newEvents w w' = drop (length (trace w)) (trace w')"

text \<open>The value of \<open>content\<close> after the \<open>try\<close>/\<open>catch\<close> around the codec call.\<close>

definition codecResult :: "config \<Rightarrow> js_object \<Rightarrow> env \<Rightarrow> buffer \<Rightarrow> buffer" where
  "codecResult cfg co ev c0 = (case zlib ev (algorithm cfg) co c0 of None \<Rightarrow> c0 | Some r \<Rightarrow> r)"




subsection \<open>Concrete inputs\<close>

text \<open>
  An options object with every field omitted, an output directory with a file of 1025
  bytes and one of 1024 bytes, a codec that answers three bytes, and the empty state of a
  fresh process. \<open>demo_toFixed\<close> answers what \<open>toFixed(2)\<close> prints for the numbers of these
  inputs.
\<close>

definition demo_toFixed :: "jsnum \<Rightarrow> string" where
  "demo_toFixed x =
     (if x = Finite (41 / 40) then ''1.02''
      else if x = Finite (12 / 41) then ''0.29''
      else if x = Finite 100 then ''100.00''
      else if x = Infinity then ''Infinity''
      else if x = NaN then ''NaN''
      else ''0.00'')"

definition demo_options :: VitePluginCompression where
  "demo_options =
     \<lparr> opt_disable = None, opt_filter = None, opt_verbose = None, opt_threshold = None,
       opt_compressionOptions = None, opt_deleteOriginFile = None, opt_ext = None,
       opt_algorithm = None \<rparr>"

definition demo_env :: env where
  "demo_env =
     \<lparr> stat = (\<lambda>p. if p = ''a.js'' then Some \<lparr> mtimeMs = 500, fsize = 1025 \<rparr>
                  else if p = ''b.js'' then Some \<lparr> mtimeMs = 500, fsize = 1024 \<rparr>
                  else None),
       readFile = (\<lambda>p. if p = ''a.js'' then Some (replicate 1025 0)
                      else if p = ''b.js'' then Some (replicate 1024 0)
                      else None),
       zlib = (\<lambda>alg co c. Some [31, 139, 8]),
       writeFile = (\<lambda>p c. True),
       dateNow = (\<lambda>p. 1000),
       unlinkDone = (\<lambda>p. DuringCodec),
       toFixed = demo_toFixed,
       displayName = (\<lambda>c. c) \<rparr>"

definition demo_world :: world where
  "demo_world = \<lparr> mtimeCache = Map.empty, compressMap = [], trace = [] \<rparr>"

text \<open>
  The same directory with a codec that fails within the call (so that a removal takes effect
  only later), a directory whose files are empty, the directory seen by a process whose
  clock lags behind the file system's, and the directory as the first run leaves it, with
  the output \<open>a.js.gz\<close> beside \<open>a.js\<close>.
\<close>

definition demo_env_fail :: env where
  "demo_env_fail = demo_env\<lparr>zlib := (\<lambda>alg co c. None), unlinkDone := (\<lambda>p. AfterHandler)\<rparr>"







text \<open>
  \<open>/\.js$/g\<close>: from index \<open>i\<close> on, a match is found exactly when the string ends in \<open>.js\<close>
  and that suffix starts at \<open>i\<close> or later; it ends at the end of the string.
\<close>

definition demo_search_js :: "string \<Rightarrow> nat \<Rightarrow> nat option" where
  "demo_search_js s i =
     (if endsWith s ''.js'' \<and> i + 3 \<le> length s then Some (length s) else None)"

section \<open>Properties\<close>

subsection \<open>The cases of the handler\<close>

lemma newEvents_emit: "newEvents w (emit e w) = [e]"
  by (simp add: newEvents_def emit_def)

lemma handler_stat_rejected:
  "stat ev p = None \<Longrightarrow> handler cfg co ev p w = (Rejected, emit (Stat p) w)"
  by (simp add: handler_def)

lemma handler_skipped:
  "stat ev p = Some st \<Longrightarrow> skipCondition cfg (mtimeCache w) p st \<Longrightarrow>
   handler cfg co ev p w = (Fulfilled, emit (Stat p) w)"
  by (simp add: handler_def emit_def)

lemma handler_read_rejected:
  "stat ev p = Some st \<Longrightarrow> \<not> skipCondition cfg (mtimeCache w) p st \<Longrightarrow>
   readFile ev p = None \<Longrightarrow>
   handler cfg co ev p w = (Rejected, emit (ReadFile p) (emit (Stat p) w))"
  by (simp add: handler_def emit_def Let_def)

lemma handler_processed:
  assumes "stat ev p = Some st"
    and "\<not> skipCondition cfg (mtimeCache w) p st"
    and "readFile ev p = Some c0"
  shows "handler cfg co ev p w =
    (if writeFile ev (getOutputFileName p (ext cfg)) (codecResult cfg co ev c0)
     then Fulfilled else Rejected,
     \<lparr> mtimeCache =
         (if writeFile ev (getOutputFileName p (ext cfg)) (codecResult cfg co ev c0)
          then (mtimeCache w)(p \<mapsto> dateNow ev p) else mtimeCache w),
       compressMap =
         AList.update p
           \<lparr> csize = length (codecResult cfg co ev c0), oldSize = fsize st,
             cname = getOutputFileName p (ext cfg) \<rparr>
           (compressMap w),
       trace =
         trace w @ [Stat p, ReadFile p] @
         (if deleteOriginFile cfg then [Remove p] else []) @
         [Compress p] @
         (if deleteOriginFile cfg \<and> unlinkDone ev p = DuringCodec then [Unlinked p] else []) @
         (case zlib ev (algorithm cfg) co c0 of
            None \<Rightarrow> [LoggerError (''compress error:'' @ p)]
          | Some r \<Rightarrow> []) @
         [WriteFile (getOutputFileName p (ext cfg)) (codecResult cfg co ev c0)] @
         (if deleteOriginFile cfg \<and> unlinkDone ev p = DuringWrite then [Unlinked p] else []) \<rparr>)"
  using assms
  by (cases "zlib ev (algorithm cfg) co c0")
     (simp_all add: handler_def emit_def Let_def codecResult_def)

subsection \<open>Output names\<close>

text \<open>
  C7. For every source path and extension the output path is the source path followed by
  the normalised extension \<open>compressExt\<close>; the normalised extension begins with a dot, and it
  is the configured extension itself when that begins with a dot and the configured
  extension behind a new dot otherwise. With no \<open>ext\<close> option, gzip (named or by default)
  gives \<open>.gz\<close> and brotliCompress gives \<open>.br\<close>, so \<open>foo.js\<close> becomes \<open>foo.js.gz\<close> and
  \<open>foo.js.br\<close>; gzip with \<open>ext: 'zz'\<close> gives \<open>foo.js.zz\<close>.
\<close>

theorem output_file_name:
  "getOutputFileName p e = p @ compressExt e
   \<and> startsWith (compressExt e) ''.''
   \<and> compressExt e = (if startsWith e ''.'' then e else ''.'' @ e)
   \<and> ext (resolveOptions (options\<lparr>opt_algorithm := Some ''gzip'', opt_ext := None\<rparr>)) = ''.gz''
   \<and> ext (resolveOptions (options\<lparr>opt_algorithm := None, opt_ext := None\<rparr>)) = ''.gz''
   \<and> ext (resolveOptions (options\<lparr>opt_algorithm := Some ''brotliCompress'', opt_ext := None\<rparr>))
       = ''.br''
   \<and> getOutputFileName ''foo.js''
        (ext (resolveOptions (options\<lparr>opt_algorithm := Some ''gzip'', opt_ext := None\<rparr>)))
       = ''foo.js.gz''
   \<and> getOutputFileName ''foo.js''
        (ext (resolveOptions
               (options\<lparr>opt_algorithm := Some ''brotliCompress'', opt_ext := None\<rparr>)))
       = ''foo.js.br''
   \<and> getOutputFileName ''foo.js''
        (ext (resolveOptions (options\<lparr>opt_algorithm := Some ''gzip'', opt_ext := Some ''zz''\<rparr>)))
       = ''foo.js.zz''"
  by (simp add: getOutputFileName_def compressExt_def startsWith_def resolveOptions_def
      resolveExt_def orDefault_def)

text \<open>
  C10. With algorithm deflate or deflateRaw and no \<open>ext\<close> option the extension stays the
  empty string, its normalisation is a lone dot, and the output path of every source path
  is that path with one dot appended.
\<close>

theorem deflate_default_ext:
  assumes "alg = ''deflate'' \<or> alg = ''deflateRaw''"
    and "opt_algorithm options = Some alg"
    and "opt_ext options = None"
  shows "ext (resolveOptions options) = ''''
         \<and> compressExt (ext (resolveOptions options)) = ''.''
         \<and> getOutputFileName p (ext (resolveOptions options)) = p @ ''.''"
  using assms
  by (auto simp: getOutputFileName_def compressExt_def startsWith_def resolveOptions_def
      resolveExt_def orDefault_def)

theorem deflate_default_ext_witness:
  "opt_algorithm (demo_options\<lparr>opt_algorithm := Some ''deflate''\<rparr>) = Some ''deflate''
   \<and> opt_ext (demo_options\<lparr>opt_algorithm := Some ''deflate''\<rparr>) = None
   \<and> getOutputFileName ''assets/index.js''
        (ext (resolveOptions (demo_options\<lparr>opt_algorithm := Some ''deflate''\<rparr>)))
       = ''assets/index.js.''"
proof -
  have a: "''deflate'' = ''deflate'' \<or> ''deflate'' = ''deflateRaw''"
    by simp
  have b: "opt_algorithm (demo_options\<lparr>opt_algorithm := Some ''deflate''\<rparr>) = Some ''deflate''"
    by simp
  have c: "opt_ext (demo_options\<lparr>opt_algorithm := Some ''deflate''\<rparr>) = None"
    by (simp add: demo_options_def)
  show ?thesis
    using b c deflate_default_ext [OF a b c, of "''assets/index.js''"]
    by (simp add: getOutputFileName_def compressExt_def startsWith_def)
qed

subsection \<open>Codec options\<close>

text \<open>
  C9. For every algorithm name and user options object, \<open>getCompressionOptions\<close> returns the
  baseline of the algorithm with the user options merged on top, key by key: a key the user
  gives has the user's value, any other key has the baseline's. The baseline of gzip, deflate
  and deflateRaw is \<open>level = Z_BEST_COMPRESSION\<close>; that of brotliCompress is a \<open>params\<close>
  object with the text mode and the maximal quality. For any other name there is no baseline
  and the user options are returned unchanged. The function has no failing branch: it is
  total, with a plain object as result.
\<close>

theorem compression_options:
  "(\<forall>k. getCompressionOptions zc alg user k =
        (case user k of
           Some v \<Rightarrow> Some v
         | None \<Rightarrow> (case defaultOptions zc alg of None \<Rightarrow> None | Some d \<Rightarrow> d k)))
   \<and> (alg \<in> {''gzip'', ''deflate'', ''deflateRaw''} \<longrightarrow>
        defaultOptions zc alg = Some [Named ''level'' \<mapsto> JNum (Z_BEST_COMPRESSION zc)])
   \<and> (\<exists>ps. defaultOptions zc ''brotliCompress'' = Some [Named ''params'' \<mapsto> JObj ps]
            \<and> map_of ps (Indexed (BROTLI_PARAM_MODE zc)) = Some (JNum (BROTLI_MODE_TEXT zc))
            \<and> (BROTLI_PARAM_QUALITY zc \<noteq> BROTLI_PARAM_MODE zc \<longrightarrow>
                 map_of ps (Indexed (BROTLI_PARAM_QUALITY zc))
                 = Some (JNum (BROTLI_MAX_QUALITY zc))))
   \<and> (alg \<notin> {''gzip'', ''deflate'', ''deflateRaw'', ''brotliCompress''} \<longrightarrow>
        defaultOptions zc alg = None \<and> getCompressionOptions zc alg user = user)"
proof (intro conjI allI impI)
  fix k
  show "getCompressionOptions zc alg user k =
        (case user k of
           Some v \<Rightarrow> Some v
         | None \<Rightarrow> (case defaultOptions zc alg of None \<Rightarrow> None | Some d \<Rightarrow> d k))"
    by (simp add: getCompressionOptions_def map_add_def split: option.splits)
next
  assume "alg \<in> {''gzip'', ''deflate'', ''deflateRaw''}"
  then show "defaultOptions zc alg = Some [Named ''level'' \<mapsto> JNum (Z_BEST_COMPRESSION zc)]"
    by (auto simp: defaultOptions_def)
next
  show "\<exists>ps. defaultOptions zc ''brotliCompress'' = Some [Named ''params'' \<mapsto> JObj ps]
            \<and> map_of ps (Indexed (BROTLI_PARAM_MODE zc)) = Some (JNum (BROTLI_MODE_TEXT zc))
            \<and> (BROTLI_PARAM_QUALITY zc \<noteq> BROTLI_PARAM_MODE zc \<longrightarrow>
                 map_of ps (Indexed (BROTLI_PARAM_QUALITY zc))
                 = Some (JNum (BROTLI_MAX_QUALITY zc)))"
    by (rule exI [of _ "AList.update (Indexed (BROTLI_PARAM_MODE zc)) (JNum (BROTLI_MODE_TEXT zc))
                    [(Indexed (BROTLI_PARAM_QUALITY zc), JNum (BROTLI_MAX_QUALITY zc))]"])
       (simp add: defaultOptions_def)
next
  assume "alg \<notin> {''gzip'', ''deflate'', ''deflateRaw'', ''brotliCompress''}"
  then show "defaultOptions zc alg = None"
    by (simp add: defaultOptions_def)
  then show "getCompressionOptions zc alg user = user"
    by (simp add: getCompressionOptions_def)
qed

theorem compression_options_witness:
  "getCompressionOptions node_zlib ''gzip''
       [Named ''level'' \<mapsto> JNum 1, Named ''memLevel'' \<mapsto> JNum 8] (Named ''level'')
     = Some (JNum 1)
   \<and> getCompressionOptions node_zlib ''gzip'' [Named ''memLevel'' \<mapsto> JNum 8] (Named ''level'')
     = Some (JNum 9)
   \<and> getCompressionOptions node_zlib ''gzip'' [Named ''memLevel'' \<mapsto> JNum 8] (Named ''memLevel'')
     = Some (JNum 8)
   \<and> getCompressionOptions node_zlib ''zstd'' [Named ''level'' \<mapsto> JNum 3]
     = [Named ''level'' \<mapsto> JNum 3]"
proof -
  have k: "''gzip'' \<in> {''gzip'', ''deflate'', ''deflateRaw''}"
    by simp
  have u: "''zstd'' \<notin> {''gzip'', ''deflate'', ''deflateRaw'', ''brotliCompress''}"
    by simp
  note t1 = compression_options [of node_zlib "''gzip''"
      "[Named ''level'' \<mapsto> JNum 1, Named ''memLevel'' \<mapsto> JNum 8]"]
  note t2 = compression_options [of node_zlib "''gzip''" "[Named ''memLevel'' \<mapsto> JNum 8]"]
  note t3 = compression_options [of node_zlib "''zstd''" "[Named ''level'' \<mapsto> JNum 3]"]
  show ?thesis
    using k u t1 t2 t3 by (simp add: node_zlib_def)
qed

subsection \<open>The skip decision\<close>




subsection \<open>Deleting the original\<close>

lemma handler_remove_only_after_read:
  assumes "Remove q \<in> set (newEvents w (snd (handler cfg co ev p w)))"
  shows "q = p \<and> deleteOriginFile cfg \<and> (\<exists>c. readFile ev p = Some c)"
proof (cases "stat ev p")
  case None
  then show ?thesis
    using assms handler_stat_rejected [OF None, of cfg co w]
    by (simp add: newEvents_def emit_def)
next
  case (Some st)
  show ?thesis
  proof (cases "skipCondition cfg (mtimeCache w) p st")
    case True
    then show ?thesis
      using assms handler_skipped [OF Some True, of co]
      by (simp add: newEvents_def emit_def)
  next
    case False
    show ?thesis
    proof (cases "readFile ev p")
      case None
      then show ?thesis
        using assms handler_read_rejected [OF Some False None, of co]
        by (simp add: newEvents_def emit_def)
    next
      case (Some c1)
      then show ?thesis
        using assms handler_processed [OF \<open>stat ev p = Some st\<close> False Some, of co]
        by (auto simp: newEvents_def split: if_splits option.splits)
    qed
  qed
qed

lemma handler_unlinked_only_after_codec:
  assumes "Unlinked q \<in> set (newEvents w (snd (handler cfg co ev p w)))"
  shows "q = p \<and> deleteOriginFile cfg
     \<and> (\<exists>rest. newEvents w (snd (handler cfg co ev p w))
                 = [Stat p, ReadFile p, Remove p, Compress p] @ rest
              \<and> Unlinked p \<in> set rest)"
proof (cases "stat ev p")
  case None
  then show ?thesis
    using assms handler_stat_rejected [OF None, of cfg co w]
    by (simp add: newEvents_def emit_def)
next
  case (Some st)
  show ?thesis
  proof (cases "skipCondition cfg (mtimeCache w) p st")
    case True
    then show ?thesis
      using assms handler_skipped [OF Some True, of co]
      by (simp add: newEvents_def emit_def)
  next
    case False
    show ?thesis
    proof (cases "readFile ev p")
      case None
      then show ?thesis
        using assms handler_read_rejected [OF Some False None, of co]
        by (simp add: newEvents_def emit_def)
    next
      case (Some c1)
      then show ?thesis
        using assms handler_processed [OF \<open>stat ev p = Some st\<close> False Some, of co]
        by (auto simp: newEvents_def split: if_splits option.splits)
    qed
  qed
qed

text \<open>
  C6, as amended. With \<open>deleteOriginFile\<close> set, the handler of a file that is not skipped and
  whose read succeeds issues its calls in the order \<open>stat\<close>, \<open>readFile\<close>, \<open>remove\<close>, codec, and
  no call of \<open>remove\<close> follows, whatever the codec and the write answer: the removal is
  requested after the bytes are in memory and before the codec is invoked, never after a
  failed write, and it has been requested already when the codec fails. A handler calls
  \<open>remove\<close> only for its own file, only with \<open>deleteOriginFile\<close> set and only after a
  successful read. The call is not awaited: the file leaves the disk only after the codec
  has been invoked.
\<close>

theorem remove_call_before_codec:
  "(deleteOriginFile cfg \<and> stat ev p = Some st \<and> \<not> skipCondition cfg (mtimeCache w) p st
      \<and> readFile ev p = Some c0 \<longrightarrow>
    (\<exists>rest. newEvents w (snd (handler cfg co ev p w))
              = [Stat p, ReadFile p, Remove p, Compress p] @ rest
           \<and> list_all (\<lambda>e. \<forall>q. e \<noteq> Remove q) rest))
   \<and> (Remove q \<in> set (newEvents w (snd (handler cfg co ev p w))) \<longrightarrow>
        q = p \<and> deleteOriginFile cfg \<and> (\<exists>c. readFile ev p = Some c))
   \<and> (Unlinked q \<in> set (newEvents w (snd (handler cfg co ev p w))) \<longrightarrow>
        q = p \<and> deleteOriginFile cfg
        \<and> (\<exists>rest. newEvents w (snd (handler cfg co ev p w))
                    = [Stat p, ReadFile p, Remove p, Compress p] @ rest
                 \<and> Unlinked p \<in> set rest))"
proof -
  have a: "deleteOriginFile cfg \<and> stat ev p = Some st \<and> \<not> skipCondition cfg (mtimeCache w) p st
      \<and> readFile ev p = Some c0 \<longrightarrow>
    (\<exists>rest. newEvents w (snd (handler cfg co ev p w))
              = [Stat p, ReadFile p, Remove p, Compress p] @ rest
           \<and> list_all (\<lambda>e. \<forall>q. e \<noteq> Remove q) rest)"
  proof (rule impI)
    assume h: "deleteOriginFile cfg \<and> stat ev p = Some st
      \<and> \<not> skipCondition cfg (mtimeCache w) p st \<and> readFile ev p = Some c0"
    then have s: "stat ev p = Some st" and n: "\<not> skipCondition cfg (mtimeCache w) p st"
      and r: "readFile ev p = Some c0" and d: "deleteOriginFile cfg"
      by simp_all
    show "\<exists>rest. newEvents w (snd (handler cfg co ev p w))
                = [Stat p, ReadFile p, Remove p, Compress p] @ rest
             \<and> list_all (\<lambda>e. \<forall>q. e \<noteq> Remove q) rest"
      using handler_processed [OF s n r, of co] d
      by (simp add: newEvents_def split: option.splits)
  qed
  have b: "Remove q \<in> set (newEvents w (snd (handler cfg co ev p w))) \<longrightarrow>
        q = p \<and> deleteOriginFile cfg \<and> (\<exists>c. readFile ev p = Some c)"
    using handler_remove_only_after_read [of q w cfg co ev p] by (rule impI)
  have c: "Unlinked q \<in> set (newEvents w (snd (handler cfg co ev p w))) \<longrightarrow>
        q = p \<and> deleteOriginFile cfg
        \<and> (\<exists>rest. newEvents w (snd (handler cfg co ev p w))
                    = [Stat p, ReadFile p, Remove p, Compress p] @ rest
                 \<and> Unlinked p \<in> set rest)"
    using handler_unlinked_only_after_codec [of q w cfg co ev p] by (rule impI)
  show ?thesis
    using a b c by (intro conjI)
qed

theorem remove_call_before_codec_witness:
  "deleteOriginFile (resolveOptions (demo_options\<lparr>opt_deleteOriginFile := Some True\<rparr>))
   \<and> zlib demo_env_fail ''gzip'' Map.empty (replicate 1025 0) = None
   \<and> (\<exists>rest. newEvents demo_world
               (snd (handler (resolveOptions (demo_options\<lparr>opt_deleteOriginFile := Some True\<rparr>))
                      Map.empty demo_env_fail ''a.js'' demo_world))
             = [Stat ''a.js'', ReadFile ''a.js'', Remove ''a.js'', Compress ''a.js''] @ rest
            \<and> list_all (\<lambda>e. \<forall>q. e \<noteq> Remove q) rest)
   \<and> Unlinked ''a.js''
       \<in> set (newEvents demo_world
                (snd (handler (resolveOptions (demo_options\<lparr>opt_deleteOriginFile := Some True\<rparr>))
                       Map.empty demo_env ''a.js'' demo_world)))
   \<and> (\<exists>rest. newEvents demo_world
               (snd (handler (resolveOptions (demo_options\<lparr>opt_deleteOriginFile := Some True\<rparr>))
                      Map.empty demo_env ''a.js'' demo_world))
             = [Stat ''a.js'', ReadFile ''a.js'', Remove ''a.js'', Compress ''a.js''] @ rest
            \<and> Unlinked ''a.js'' \<in> set rest)"
proof -
  let ?cfg = "resolveOptions (demo_options\<lparr>opt_deleteOriginFile := Some True\<rparr>)"
  have d: "deleteOriginFile ?cfg"
    by (simp add: resolveOptions_def orDefault_def)
  have s: "stat demo_env_fail ''a.js'' = Some \<lparr> mtimeMs = 500, fsize = 1025 \<rparr>"
    by (simp add: demo_env_fail_def demo_env_def)
  have n: "\<not> skipCondition ?cfg (mtimeCache demo_world) ''a.js'' \<lparr> mtimeMs = 500, fsize = 1025 \<rparr>"
    by (simp add: skipCondition_def lastRecorded_def demo_world_def resolveOptions_def
        orDefault_def demo_options_def)
  have r: "readFile demo_env_fail ''a.js'' = Some (replicate 1025 0)"
    by (simp add: demo_env_fail_def demo_env_def)
  have z: "zlib demo_env_fail ''gzip'' Map.empty (replicate 1025 0) = None"
    by (simp add: demo_env_fail_def)
  have s1: "stat demo_env ''a.js'' = Some \<lparr> mtimeMs = 500, fsize = 1025 \<rparr>"
    by (simp add: demo_env_def)
  have r1: "readFile demo_env ''a.js'' = Some (replicate 1025 0)"
    by (simp add: demo_env_def)
  have u: "Unlinked ''a.js''
       \<in> set (newEvents demo_world (snd (handler ?cfg Map.empty demo_env ''a.js'' demo_world)))"
    using handler_processed [OF s1 n r1, of Map.empty] d
    by (simp add: newEvents_def demo_env_def)
  have first: "\<exists>rest. newEvents demo_world
               (snd (handler ?cfg Map.empty demo_env_fail ''a.js'' demo_world))
             = [Stat ''a.js'', ReadFile ''a.js'', Remove ''a.js'', Compress ''a.js''] @ rest
            \<and> list_all (\<lambda>e. \<forall>q. e \<noteq> Remove q) rest"
    using d s n r
      remove_call_before_codec [of ?cfg demo_env_fail "''a.js''"
        "\<lparr> mtimeMs = 500, fsize = 1025 \<rparr>" demo_world "replicate 1025 0" Map.empty "''a.js''"]
    by simp
  have second: "\<exists>rest. newEvents demo_world
               (snd (handler ?cfg Map.empty demo_env ''a.js'' demo_world))
             = [Stat ''a.js'', ReadFile ''a.js'', Remove ''a.js'', Compress ''a.js''] @ rest
            \<and> Unlinked ''a.js'' \<in> set rest"
    using u
      remove_call_before_codec [of ?cfg demo_env "''a.js''"
        "\<lparr> mtimeMs = 500, fsize = 1025 \<rparr>" demo_world "replicate 1025 0" Map.empty "''a.js''"]
    by simp
  show ?thesis
    using d z u first second by (intro conjI)
qed

text \<open>
  C6 as stated fails on the deletion itself. With \<open>deleteOriginFile\<close> set and a codec that
  succeeds, \<open>a.js\<close> leaves the disk while the handler waits for the codec, that is, after the
  codec was invoked. With a codec that fails within the call, the failure is logged, the
  output is written and the handler is fulfilled while \<open>a.js\<close> is still on the disk.
\<close>

theorem deletion_counterexample:
  "newEvents demo_world
     (snd (handler (resolveOptions (demo_options\<lparr>opt_deleteOriginFile := Some True\<rparr>))
            Map.empty demo_env ''a.js'' demo_world))
     = [Stat ''a.js'', ReadFile ''a.js'', Remove ''a.js'', Compress ''a.js'', Unlinked ''a.js'',
        WriteFile ''a.js.gz'' [31, 139, 8]]
   \<and> handler (resolveOptions (demo_options\<lparr>opt_deleteOriginFile := Some True\<rparr>))
        Map.empty demo_env_fail ''a.js'' demo_world
     = (Fulfilled,
        \<lparr> mtimeCache = [''a.js'' \<mapsto> 1000],
          compressMap = [(''a.js'', \<lparr> csize = 1025, oldSize = 1025, cname = ''a.js.gz'' \<rparr>)],
          trace = [Stat ''a.js'', ReadFile ''a.js'', Remove ''a.js'', Compress ''a.js'',
                   LoggerError ''compress error:a.js'',
                   WriteFile ''a.js.gz'' (replicate 1025 0)] \<rparr>)"
proof -
  let ?cfg = "resolveOptions (demo_options\<lparr>opt_deleteOriginFile := Some True\<rparr>)"
  have n: "\<not> skipCondition ?cfg (mtimeCache demo_world) ''a.js'' \<lparr> mtimeMs = 500, fsize = 1025 \<rparr>"
    by (simp add: skipCondition_def lastRecorded_def demo_world_def resolveOptions_def
        orDefault_def demo_options_def)
  have s1: "stat demo_env ''a.js'' = Some \<lparr> mtimeMs = 500, fsize = 1025 \<rparr>"
    by (simp add: demo_env_def)
  have r1: "readFile demo_env ''a.js'' = Some (replicate 1025 0)"
    by (simp add: demo_env_def)
  have s2: "stat demo_env_fail ''a.js'' = Some \<lparr> mtimeMs = 500, fsize = 1025 \<rparr>"
    by (simp add: demo_env_fail_def demo_env_def)
  have r2: "readFile demo_env_fail ''a.js'' = Some (replicate 1025 0)"
    by (simp add: demo_env_fail_def demo_env_def)
  have a: "newEvents demo_world (snd (handler ?cfg Map.empty demo_env ''a.js'' demo_world))
     = [Stat ''a.js'', ReadFile ''a.js'', Remove ''a.js'', Compress ''a.js'', Unlinked ''a.js'',
        WriteFile ''a.js.gz'' [31, 139, 8]]"
    using handler_processed [OF s1 n r1, of Map.empty]
    by (simp add: newEvents_def codecResult_def demo_env_def demo_world_def
        resolveOptions_def orDefault_def demo_options_def resolveExt_def
        getOutputFileName_def compressExt_def startsWith_def)
  have b: "handler ?cfg Map.empty demo_env_fail ''a.js'' demo_world
     = (Fulfilled,
        \<lparr> mtimeCache = [''a.js'' \<mapsto> 1000],
          compressMap = [(''a.js'', \<lparr> csize = 1025, oldSize = 1025, cname = ''a.js.gz'' \<rparr>)],
          trace = [Stat ''a.js'', ReadFile ''a.js'', Remove ''a.js'', Compress ''a.js'',
                   LoggerError ''compress error:a.js'',
                   WriteFile ''a.js.gz'' (replicate 1025 0)] \<rparr>)"
    using handler_processed [OF s2 n r2, of Map.empty]
    by (simp add: codecResult_def demo_env_fail_def demo_env_def demo_world_def
        resolveOptions_def orDefault_def demo_options_def resolveExt_def
        getOutputFileName_def compressExt_def startsWith_def)
  show ?thesis
    using a b by (rule conjI)
qed

subsection \<open>A failing codec\<close>

text \<open>
  C1, evaluated where the codec fails. With the default options, a fresh file \<open>a.js\<close> of 1025
  bytes and a codec that reports an error, the handler logs \<open>compress error:a.js\<close> and then
  goes on: it enters the file in the result map with its own size as the compressed size,
  writes the uncompressed bytes to \<open>a.js.gz\<close>, records the file in the cache and is
  fulfilled. A second handler call for the unchanged file is therefore a skip. The claim
  asks for no output file, no cache entry and a new attempt in the next run.
\<close>

theorem codec_failure_evaluated:
  "zlib demo_env_fail (algorithm (resolveOptions demo_options)) Map.empty (replicate 1025 0) = None
   \<and> handler (resolveOptions demo_options) Map.empty demo_env_fail ''a.js'' demo_world
     = (Fulfilled,
        \<lparr> mtimeCache = [''a.js'' \<mapsto> 1000],
          compressMap = [(''a.js'', \<lparr> csize = 1025, oldSize = 1025, cname = ''a.js.gz'' \<rparr>)],
          trace = [Stat ''a.js'', ReadFile ''a.js'', Compress ''a.js'',
                   LoggerError ''compress error:a.js'',
                   WriteFile ''a.js.gz'' (replicate 1025 0)] \<rparr>)
   \<and> newEvents
        (snd (handler (resolveOptions demo_options) Map.empty demo_env_fail ''a.js'' demo_world))
        (snd (handler (resolveOptions demo_options) Map.empty demo_env_fail ''a.js''
               (snd (handler (resolveOptions demo_options) Map.empty demo_env_fail ''a.js''
                      demo_world))))
     = [Stat ''a.js'']"
proof -
  let ?cfg = "resolveOptions demo_options"
  let ?w1 = "\<lparr> mtimeCache = [''a.js'' \<mapsto> 1000],
          compressMap = [(''a.js'', \<lparr> csize = 1025, oldSize = 1025, cname = ''a.js.gz'' \<rparr>)],
          trace = [Stat ''a.js'', ReadFile ''a.js'', Compress ''a.js'',
                   LoggerError ''compress error:a.js'',
                   WriteFile ''a.js.gz'' (replicate 1025 0)] \<rparr>"
  have z: "zlib demo_env_fail (algorithm ?cfg) Map.empty (replicate 1025 0) = None"
    by (simp add: demo_env_fail_def)
  have s: "stat demo_env_fail ''a.js'' = Some \<lparr> mtimeMs = 500, fsize = 1025 \<rparr>"
    by (simp add: demo_env_fail_def demo_env_def)
  have n: "\<not> skipCondition ?cfg (mtimeCache demo_world) ''a.js'' \<lparr> mtimeMs = 500, fsize = 1025 \<rparr>"
    by (simp add: skipCondition_def lastRecorded_def demo_world_def resolveOptions_def
        orDefault_def demo_options_def)
  have r: "readFile demo_env_fail ''a.js'' = Some (replicate 1025 0)"
    by (simp add: demo_env_fail_def demo_env_def)
  have h1: "handler ?cfg Map.empty demo_env_fail ''a.js'' demo_world = (Fulfilled, ?w1)"
    using handler_processed [OF s n r, of Map.empty] z
    by (simp add: codecResult_def demo_env_fail_def demo_env_def demo_world_def
        resolveOptions_def orDefault_def demo_options_def resolveExt_def
        getOutputFileName_def compressExt_def startsWith_def)
  have k: "skipCondition ?cfg (mtimeCache ?w1) ''a.js'' \<lparr> mtimeMs = 500, fsize = 1025 \<rparr>"
    by (simp add: skipCondition_def lastRecorded_def)
  have h2: "handler ?cfg Map.empty demo_env_fail ''a.js'' ?w1 = (Fulfilled, emit (Stat ''a.js'') ?w1)"
    using handler_skipped [OF s k] by simp
  show ?thesis
    using z h1 h2 by (simp add: newEvents_emit)
qed

subsection \<open>The threshold option\<close>

text \<open>
  C4, as amended. With \<open>threshold: 0\<close> there is no exclusion by size: a file is skipped
  exactly when it is not fresh, and a fresh file whose read succeeds is compressed whatever
  its size. An omitted threshold is 1025: a file is skipped exactly when it is not fresh or
  smaller than 1025 bytes.
\<close>

theorem threshold_zero_or_default:
  "(opt_threshold options = Some 0 \<longrightarrow>
      (skipCondition (resolveOptions options) cache p st
         \<longleftrightarrow> mtimeMs st \<le> lastRecorded cache p))
   \<and> (opt_threshold options = Some 0 \<and> stat ev p = Some st
        \<and> lastRecorded (mtimeCache w) p < mtimeMs st \<and> readFile ev p = Some c0 \<longrightarrow>
      Compress p \<in> set (newEvents w (snd (handler (resolveOptions options) co ev p w))))
   \<and> (opt_threshold options = None \<longrightarrow>
      threshold (resolveOptions options) = 1025
      \<and> (skipCondition (resolveOptions options) cache p st
           \<longleftrightarrow> mtimeMs st \<le> lastRecorded cache p \<or> fsize st < 1025))"
proof (intro conjI impI)
  assume "opt_threshold options = Some 0"
  then show "skipCondition (resolveOptions options) cache p st
         \<longleftrightarrow> mtimeMs st \<le> lastRecorded cache p"
    by (simp add: skipCondition_def resolveOptions_def orDefault_def)
next
  assume a: "opt_threshold options = Some 0 \<and> stat ev p = Some st
        \<and> lastRecorded (mtimeCache w) p < mtimeMs st \<and> readFile ev p = Some c0"
  then have n: "\<not> skipCondition (resolveOptions options) (mtimeCache w) p st"
    by (simp add: skipCondition_def resolveOptions_def orDefault_def)
  from a have s: "stat ev p = Some st" and r: "readFile ev p = Some c0"
    by simp_all
  show "Compress p \<in> set (newEvents w (snd (handler (resolveOptions options) co ev p w)))"
    using handler_processed [OF s n r, of co]
    by (simp add: newEvents_def)
next
  assume a: "opt_threshold options = None"
  then show "threshold (resolveOptions options) = 1025"
    by (simp add: resolveOptions_def orDefault_def)
  have "(of_nat (fsize st) < (1025::rat)) = (fsize st < 1025)"
    using of_nat_less_iff [of "fsize st" 1025, where ?'a = rat] by simp
  then show "skipCondition (resolveOptions options) cache p st
           \<longleftrightarrow> mtimeMs st \<le> lastRecorded cache p \<or> fsize st < 1025"
    using a by (simp add: skipCondition_def resolveOptions_def orDefault_def)
qed

theorem threshold_zero_or_default_witness:
  "opt_threshold (demo_options\<lparr>opt_threshold := Some 0\<rparr>) = Some 0
   \<and> stat demo_env ''b.js'' = Some \<lparr> mtimeMs = 500, fsize = 1024 \<rparr>
   \<and> Compress ''b.js''
       \<in> set (newEvents demo_world
                (snd (handler (resolveOptions (demo_options\<lparr>opt_threshold := Some 0\<rparr>))
                       Map.empty demo_env ''b.js'' demo_world)))
   \<and> opt_threshold demo_options = None
   \<and> threshold (resolveOptions demo_options) = 1025"
proof -
  have s: "stat demo_env ''b.js'' = Some \<lparr> mtimeMs = 500, fsize = 1024 \<rparr>"
    by (simp add: demo_env_def)
  have r: "readFile demo_env ''b.js'' = Some (replicate 1024 0)"
    by (simp add: demo_env_def)
  have l: "lastRecorded (mtimeCache demo_world) ''b.js'' < 500"
    by (simp add: lastRecorded_def demo_world_def)
  have o: "opt_threshold demo_options = None"
    by (simp add: demo_options_def)
  show ?thesis
    using s r l o
      threshold_zero_or_default [of "demo_options\<lparr>opt_threshold := Some 0\<rparr>" Map.empty
        "''b.js''" "\<lparr> mtimeMs = 500, fsize = 1024 \<rparr>" demo_env demo_world "replicate 1024 0"
        Map.empty]
      threshold_zero_or_default [of demo_options Map.empty
        "''b.js''" "\<lparr> mtimeMs = 500, fsize = 1024 \<rparr>" demo_env demo_world "replicate 1024 0"
        Map.empty]
    by simp
qed

text \<open>
  C4 as stated fails for the omitted threshold: with no option given, the fresh file
  \<open>b.js\<close> of 1024 bytes passes the default filter and is skipped for its size.
\<close>

theorem threshold_unset_counterexample:
  "opt_threshold demo_options = None
   \<and> extRE ''b.js''
   \<and> stat demo_env ''b.js'' = Some \<lparr> mtimeMs = 500, fsize = 1024 \<rparr>
   \<and> lastRecorded (mtimeCache demo_world) ''b.js'' < 500
   \<and> newEvents demo_world
        (snd (handler (resolveOptions demo_options) Map.empty demo_env ''b.js'' demo_world))
     = [Stat ''b.js'']"
proof -
  have s: "stat demo_env ''b.js'' = Some \<lparr> mtimeMs = 500, fsize = 1024 \<rparr>"
    by (simp add: demo_env_def)
  have k: "skipCondition (resolveOptions demo_options) (mtimeCache demo_world) ''b.js''
             \<lparr> mtimeMs = 500, fsize = 1024 \<rparr>"
    by (simp add: skipCondition_def resolveOptions_def orDefault_def demo_options_def)
  have e: "extRE ''b.js''"
    by (simp add: extRE_def endsWith_def toLowerCase_def)
  show ?thesis
    using s e handler_skipped [OF s k, of Map.empty]
    by (simp add: newEvents_emit demo_options_def lastRecorded_def demo_world_def)
qed

subsection \<open>Runs of handlers\<close>








subsection \<open>The report\<close>





lemma handleOutputLogger_verbose:
  "handleOutputLogger (cfg\<lparr>verbose := b\<rparr>) ev w = handleOutputLogger cfg ev w"
  by (simp add: handleOutputLogger_def)

subsection \<open>The hook\<close>





subsection \<open>The report and the callback\<close>




subsection \<open>Percentages\<close>










subsection \<open>Two runs in succession\<close>

















subsection \<open>A filter with the global flag\<close>

text \<open>
  With \<open>filter: /\.js$/g\<close> the test of \<open>a.js\<close> leaves \<open>lastIndex = 4\<close>, so the test of \<open>b.js\<close>
  fails and resets it: only every other matching file is kept, where the same expression
  without the flag keeps both.
\<close>

lemma filterFiles_global_flag:
  "filterFiles [''a.js'', ''b.js'', ''c.js''] (RegExpGY demo_search_js 0) = [''a.js'', ''c.js'']
   \<and> filterAfter [''a.js'', ''b.js'', ''c.js''] (RegExpGY demo_search_js 0)
     = RegExpGY demo_search_js 4
   \<and> filterFiles [''a.js'', ''b.js'', ''c.js''] (RegExp (\<lambda>s. demo_search_js s 0 \<noteq> None))
     = [''a.js'', ''b.js'', ''c.js'']"
  by (simp add: filterFiles_def filterAfter_def demo_search_js_def endsWith_def)

end
